theory Spec2Isabelle
  imports Complex_Main "HOL-Library.Sublist"
begin

section \<open>Python strings\<close>

text \<open>
  A Python \<open>str\<close> is modelled as a \<open>string\<close>: each \<open>char\<close> stands for one code point
  below 256. The predicates below are Python's own on that range.
\<close>

text \<open>\<open>str.isspace\<close> on one code point: the characters \<open>str.split()\<close> and
  \<open>str.strip()\<close> treat as whitespace.\<close>

definition whitespace_chars :: "char list" where
  "whitespace_chars =
     [CHR 0x09, CHR 0x0A, CHR 0x0B, CHR 0x0C, CHR 0x0D,
      CHR 0x1C, CHR 0x1D, CHR 0x1E, CHR 0x1F, CHR 0x20, CHR 0x85, CHR 0xA0]"

definition py_isspace :: "char \<Rightarrow> bool" where
  "py_isspace c = (c \<in> set whitespace_chars)"

text \<open>\<open>s.split()\<close> with no separator: the maximal runs of non-whitespace characters.
  \<open>cur\<close> is the word being read.\<close>

fun py_split_from :: "string \<Rightarrow> string \<Rightarrow> string list" where
  "py_split_from cur [] = (if cur = [] then [] else [cur])"
| "py_split_from cur (c # cs) =
     (if py_isspace c
      then (if cur = [] then py_split_from [] cs else cur # py_split_from [] cs)
      else py_split_from (cur @ [c]) cs)"

definition py_split :: "string \<Rightarrow> string list" where
  "py_split s = py_split_from [] s"

text \<open>\<open>s.strip()\<close>: leading and trailing whitespace removed.\<close>

definition py_strip :: "string \<Rightarrow> string" where
  "py_strip s = rev (dropWhile py_isspace (rev (dropWhile py_isspace s)))"

text \<open>\<open>sep.join(parts)\<close>.\<close>

fun py_join :: "string \<Rightarrow> string list \<Rightarrow> string" where
  "py_join sep [] = []"
| "py_join sep [x] = x"
| "py_join sep (x # y # ys) = x @ sep @ py_join sep (y # ys)"

text \<open>\<open>s.lower()\<close>: the capital letters A to Z and, in the upper half of the range,
  the capitals from 0xC0 to 0xDE except the multiplication sign 0xD7 move up by 32.\<close>

definition lower_char :: "char \<Rightarrow> char" where
  "lower_char c =
     (let n = (of_char c :: nat)
      in if (65 \<le> n \<and> n \<le> 90) \<or> (192 \<le> n \<and> n \<le> 222 \<and> n \<noteq> 215)
         then char_of (n + 32) else c)"

definition py_lower :: "string \<Rightarrow> string" where
  "py_lower s = map lower_char s"

text \<open>\<open>needle in hay\<close> on strings: \<open>needle\<close> occurs as a contiguous run.\<close>

definition py_in :: "string \<Rightarrow> string \<Rightarrow> bool" where
  "py_in needle hay = sublist needle hay"

section \<open>types.py: QuerySpec\<close>

record QuerySpec =
  query :: string
  qualifiers :: "(string \<times> string) list"

text \<open>
  The frame of one call of \<open>QuerySpec.build\<close>: the object \<open>self\<close> and the local list
  \<open>parts\<close>. Every statement of the method is a function on frames, so that what the
  method does to the object is part of the model.
\<close>

record build_frame =
  self :: QuerySpec
  parts :: "string list"

text \<open>One round of \<open>for qualifier, value in self.qualifiers\<close>.\<close>

definition build_step :: "string \<times> string \<Rightarrow> build_frame \<Rightarrow> build_frame" where
  "build_step kv fr =
     (let qualifier = py_strip (fst kv);
          val = py_strip (snd kv)
      in if qualifier = [] then fr
         else (let token = (if val = [] then qualifier else qualifier @ '':'' @ val)
               in fr\<lparr>parts := parts fr @ [token]\<rparr>))"

fun build_loop :: "(string \<times> string) list \<Rightarrow> build_frame \<Rightarrow> build_frame" where
  "build_loop [] fr = fr"
| "build_loop (kv # rest) fr = build_loop rest (build_step kv fr)"

text \<open>The method body up to its \<open>return\<close>: the frame the \<open>return\<close> statement reads.\<close>

definition build_body :: "QuerySpec \<Rightarrow> build_frame" where
  "build_body s =
     (let fr0 = \<lparr>self = s, parts = []\<rparr>;
          query_text = py_join '' '' (py_split (query (self fr0)));
          fr1 = (if query_text \<noteq> [] then fr0\<lparr>parts := parts fr0 @ [query_text]\<rparr> else fr0)
      in build_loop (qualifiers (self fr1)) fr1)"

text \<open>\<open>build\<close> as a call: the string returned and the object after the call.\<close>

definition build_call :: "QuerySpec \<Rightarrow> string \<times> QuerySpec" where
  "build_call s = (let fr = build_body s in (py_join '' '' (parts fr), self fr))"

definition build :: "QuerySpec \<Rightarrow> string" where
  "build s = fst (build_call s)"

text \<open>
  The words of the specification, stated without the functions above. The words of a
  text: skip the whitespace, take the longest run of characters that are no whitespace,
  and go on behind it.
\<close>

function spec_words :: "string \<Rightarrow> string list" where
  "spec_words s =
     (if dropWhile py_isspace s = [] then []
      else takeWhile (\<lambda>c. \<not> py_isspace c) (dropWhile py_isspace s)
           # spec_words (dropWhile (\<lambda>c. \<not> py_isspace c) (dropWhile py_isspace s)))"
  by pat_completeness auto
termination
proof (relation "measure length")
  show "wf (measure length)"
    by simp
next
  fix s :: string
  assume ne: "dropWhile py_isspace s \<noteq> []"
  then obtain c cs where t: "dropWhile py_isspace s = c # cs"
    by (cases "dropWhile py_isspace s") auto
  then have "\<not> py_isspace c"
    using hd_dropWhile [OF ne] by simp
  then have "length (dropWhile (\<lambda>c. \<not> py_isspace c) (c # cs)) \<le> length cs"
    by (simp add: length_dropWhile_le)
  also have "length cs < length (dropWhile py_isspace s)"
    by (simp add: t)
  also have "\<dots> \<le> length s"
    by (rule length_dropWhile_le)
  finally show "(dropWhile (\<lambda>c. \<not> py_isspace c) (dropWhile py_isspace s), s) \<in> measure length"
    by (simp add: t)
qed

declare spec_words.simps [simp del]

text \<open>A text stripped: the whitespace in front is dropped, and what remains is cut
  before its trailing run of whitespace.\<close>

definition spec_strip :: "string \<Rightarrow> string" where
  "spec_strip s =
     (let t = dropWhile py_isspace s
      in take (length t - length (takeWhile py_isspace (rev t))) t)"

text \<open>The rendering of one qualifier in the words of the specification: nothing for a
  key that strips to empty, the bare key for a value that strips to empty, \<open>key:value\<close>
  otherwise.\<close>

definition render_qualifier :: "string \<times> string \<Rightarrow> string list" where
  "render_qualifier kv =
     (if spec_strip (fst kv) = [] then []
      else if spec_strip (snd kv) = [] then [spec_strip (fst kv)]
      else [spec_strip (fst kv) @ '':'' @ spec_strip (snd kv)])"

text \<open>The query text in the words of the specification: split on whitespace, rejoined
  with single spaces, dropped when that leaves nothing.\<close>

definition normalized_query :: "string \<Rightarrow> string list" where
  "normalized_query s =
     (let t = py_join '' '' (spec_words s) in if t = [] then [] else [t])"

section \<open>Python values\<close>

text \<open>
  What \<open>response.json()\<close> hands to the code: \<open>None\<close>, a bool, an int, a float, a str,
  a list or a dict. A dict is the list of its items (the keys are distinct). A float is
  modelled by the real number it stands for; rounding and the range of a float are
  outside the model.
\<close>

datatype json =
    JNull
  | JBool bool
  | JInt int
  | JFloat real
  | JStr string
  | JArr "json list"
  | JObj "(string \<times> json) list"

text \<open>The exceptions the modelled code can raise or let through. \<open>JSONDecodeError\<close> is
  the \<open>ValueError\<close> of \<open>response.json()\<close>; \<open>ConnectionError\<close> is the transport failing
  to deliver a response; \<open>OverflowError\<close> and \<open>ValueError\<close> come from the arithmetic on
  the reset time and from \<open>time.sleep\<close>.\<close>

datatype error =
    GitHubAPIError string
  | JSONDecodeError
  | AttributeError
  | TypeError
  | KeyError
  | IndexError
  | ConnectionError
  | OverflowError
  | ValueError

text \<open>Sequencing of statements that may raise: the first exception ends the block.\<close>

definition bind_err :: "error + 'a \<Rightarrow> ('a \<Rightarrow> error + 'b) \<Rightarrow> error + 'b" where
  "bind_err m f = (case m of Inl e \<Rightarrow> Inl e | Inr x \<Rightarrow> f x)"

text \<open>Truth value of a Python object, as \<open>or\<close> and \<open>if\<close> test it.\<close>

fun py_truthy :: "json \<Rightarrow> bool" where
  "py_truthy JNull = False"
| "py_truthy (JBool b) = b"
| "py_truthy (JInt i) = (i \<noteq> 0)"
| "py_truthy (JFloat r) = (r \<noteq> 0)"
| "py_truthy (JStr s) = (s \<noteq> [])"
| "py_truthy (JArr xs) = (xs \<noteq> [])"
| "py_truthy (JObj kvs) = (kvs \<noteq> [])"

text \<open>\<open>a or b\<close>.\<close>

definition py_or :: "json \<Rightarrow> json \<Rightarrow> json" where
  "py_or a b = (if py_truthy a then a else b)"

text \<open>\<open>v.get(key, default)\<close>: only a dict has the method.\<close>

fun py_get :: "json \<Rightarrow> string \<Rightarrow> json \<Rightarrow> error + json" where
  "py_get (JObj kvs) k d = Inr (case map_of kvs k of Some v \<Rightarrow> v | None \<Rightarrow> d)"
| "py_get _ k d = Inl AttributeError"

text \<open>\<open>v[0]\<close>: the first element of a list, the first character of a str; a dict
  decoded from JSON has no key \<open>0\<close>; nothing else can be indexed.\<close>

fun py_index0 :: "json \<Rightarrow> error + json" where
  "py_index0 (JArr []) = Inl IndexError"
| "py_index0 (JArr (x # xs)) = Inr x"
| "py_index0 (JStr []) = Inl IndexError"
| "py_index0 (JStr (c # cs)) = Inr (JStr [c])"
| "py_index0 (JObj kvs) = Inl KeyError"
| "py_index0 _ = Inl TypeError"

text \<open>\<open>for item in v\<close>: the elements of a list, the keys of a dict, the characters of
  a str; nothing else can be iterated.\<close>

fun py_iter :: "json \<Rightarrow> error + json list" where
  "py_iter (JArr xs) = Inr xs"
| "py_iter (JObj kvs) = Inr (map (\<lambda>kv. JStr (fst kv)) kvs)"
| "py_iter (JStr s) = Inr (map (\<lambda>c. JStr [c]) s)"
| "py_iter _ = Inl TypeError"

text \<open>\<open>len(v)\<close>.\<close>

fun py_len :: "json \<Rightarrow> error + int" where
  "py_len (JArr xs) = Inr (int (length xs))"
| "py_len (JObj kvs) = Inr (int (length kvs))"
| "py_len (JStr s) = Inr (int (length s))"
| "py_len _ = Inl TypeError"

text \<open>
  \<open>int(s)\<close> on a str: surrounding whitespace is dropped, one sign is allowed, then
  decimal digits, with single underscores between digits. \<open>None\<close> is \<open>ValueError\<close>.
  The whitespace \<open>int\<close> drops is not that of \<open>str.strip\<close>: the separators 0x1C to 0x1F
  are no whitespace for it. A text with more than \<open>INT_MAX_STR_DIGITS\<close> digits is refused
  (the default of \<open>sys.get_int_max_str_digits()\<close>; underscores do not count).
\<close>

definition int_space_chars :: "char list" where
  "int_space_chars =
     [CHR 0x09, CHR 0x0A, CHR 0x0B, CHR 0x0C, CHR 0x0D, CHR 0x20, CHR 0x85, CHR 0xA0]"

definition int_isspace :: "char \<Rightarrow> bool" where
  "int_isspace c = (c \<in> set int_space_chars)"

definition INT_MAX_STR_DIGITS :: nat where
  "INT_MAX_STR_DIGITS = 4300"

definition digit_chars :: "char list" where
  "digit_chars = ''0123456789''"

definition digit_value :: "char \<Rightarrow> nat option" where
  "digit_value c = map_of (zip digit_chars [0 ..< 10]) c"

text \<open>\<open>acc\<close> is the value read so far; \<open>prev\<close> says that the last character was a
  digit.\<close>

fun py_digits :: "nat \<Rightarrow> bool \<Rightarrow> string \<Rightarrow> nat option" where
  "py_digits acc prev [] = (if prev then Some acc else None)"
| "py_digits acc prev (c # cs) =
     (case digit_value c of
        Some d \<Rightarrow> py_digits (10 * acc + d) True cs
      | None \<Rightarrow> if c = CHR ''_'' \<and> prev then py_digits acc False cs else None)"

definition py_int :: "string \<Rightarrow> int option" where
  "py_int s =
     (case rev (dropWhile int_isspace (rev (dropWhile int_isspace s))) of
        [] \<Rightarrow> None
      | c # cs \<Rightarrow>
          if INT_MAX_STR_DIGITS < length (filter (\<lambda>x. digit_value x \<noteq> None) (c # cs))
          then None
          else if c = CHR ''-'' then map_option (\<lambda>n. - int n) (py_digits 0 False cs)
          else if c = CHR ''+'' then map_option int (py_digits 0 False cs)
          else map_option int (py_digits 0 False (c # cs)))"

text \<open>\<open>str(n)\<close> for an int.\<close>

function str_nat :: "nat \<Rightarrow> string" where
  "str_nat n = (if n < 10 then [digit_chars ! n] else str_nat (n div 10) @ [digit_chars ! (n mod 10)])"
  by pat_completeness auto
termination
  by (relation "measure id") auto

declare str_nat.simps [simp del]

definition py_str_int :: "int \<Rightarrow> string" where
  "py_str_int i = (if i < 0 then ''-'' @ str_nat (nat (- i)) else str_nat (nat i))"

text \<open>\<open>str(v)\<close>, which an f-string applies to a value: a str is itself, \<open>None\<close>, a bool
  and an int print as Python prints them. For a float, a list and a dict \<open>str\<close> is
  \<open>repr\<close>, which is not modelled: \<open>repr_of\<close> stands for it, and every result below holds
  whatever it prints.\<close>

definition py_str :: "(json \<Rightarrow> string) \<Rightarrow> json \<Rightarrow> string" where
  "py_str repr_of v =
     (case v of
        JStr s \<Rightarrow> s
      | JNull \<Rightarrow> ''None''
      | JBool b \<Rightarrow> (if b then ''True'' else ''False'')
      | JInt i \<Rightarrow> py_str_int i
      | _ \<Rightarrow> repr_of v)"

section \<open>types.py: SearchResult\<close>

text \<open>The dataclass does not check its fields: each holds the Python object it was
  given. \<open>snippet = JNull\<close> is \<open>None\<close>, the absent snippet.\<close>

record SearchResult =
  repository :: json
  path :: json
  url :: json
  score :: json
  snippet :: json

section \<open>github.py: the HTTP exchange\<close>

definition DEFAULT_BASE_URL :: string where
  "DEFAULT_BASE_URL = ''https://api.github.com''"

definition SEARCH_ENDPOINT :: string where
  "SEARCH_ENDPOINT = ''/search/code''"

definition DEFAULT_TIMEOUT :: int where
  "DEFAULT_TIMEOUT = 15"

definition MAX_RETRIES :: int where
  "MAX_RETRIES = 3"

text \<open>A header dictionary of the HTTP library: the list of its entries, looked up
  without regard to case; an earlier entry hides a later one of the same name.\<close>

type_synonym headers = "(string \<times> string) list"

definition header_get :: "headers \<Rightarrow> string \<Rightarrow> string option" where
  "header_get hs name = map_of (map (\<lambda>kv. (py_lower (fst kv), snd kv)) hs) (py_lower name)"

text \<open>
  A response as the code reads it: \<open>status_code\<close>, \<open>text\<close>, \<open>headers\<close> and the outcome
  of \<open>json()\<close> (\<open>None\<close> when the body is not JSON and \<open>json()\<close> raises \<open>ValueError\<close>).
  The decoder is the library's: its result is part of the response.
\<close>

record response =
  status_code :: int
  resp_text :: string
  resp_headers :: headers
  resp_json :: "json option"

record params =
  param_q :: string
  param_per_page :: int
  param_page :: int

record request =
  req_url :: string
  req_params :: params
  req_headers :: headers
  req_timeout :: int

text \<open>
  The world outside the client: the responses the server will give, in order
  (\<open>pending\<close>), the requests sent so far, the durations slept so far and the clock.
  Sleeping moves the clock by the duration slept; an exchange takes no time.
\<close>

record world =
  pending :: "response list"
  sent :: "request list"
  slept :: "real list"
  now :: real

record GitHubSearchClient =
  base_url :: string
  session_headers :: headers

text \<open>\<open>base_url.rstrip("/")\<close>.\<close>

definition rstrip_slash :: "string \<Rightarrow> string" where
  "rstrip_slash s = rev (dropWhile (\<lambda>c. c = CHR ''/'') (rev s))"

text \<open>\<open>GitHubSearchClient.__init__\<close>. \<open>session0\<close> holds the headers of the session
  before the update; the update puts the three headers in front of them.\<close>

definition init_client :: "string \<Rightarrow> string \<Rightarrow> string \<Rightarrow> headers \<Rightarrow> GitHubSearchClient" where
  "init_client token url0 user_agent session0 =
     \<lparr>base_url = rstrip_slash url0,
      session_headers =
        [(''Authorization'', ''token '' @ token),
         (''Accept'', ''application/vnd.github.v3.text-match+json''),
         (''User-Agent'', user_agent)] @ session0\<rparr>"

text \<open>\<open>self.session.get(url, params=..., headers=..., timeout=...)\<close>: the request goes
  out with the headers of the call in front of the session's, and the next pending
  response comes back; with none pending the transport raises.\<close>

definition make_request :: "GitHubSearchClient \<Rightarrow> params \<Rightarrow> headers \<Rightarrow> request" where
  "make_request c ps extra_headers =
     \<lparr>req_url = base_url c @ SEARCH_ENDPOINT, req_params = ps,
      req_headers = extra_headers @ session_headers c,
      req_timeout = DEFAULT_TIMEOUT\<rparr>"

definition session_get ::
  "GitHubSearchClient \<Rightarrow> params \<Rightarrow> headers \<Rightarrow> world \<Rightarrow> (error + response) \<times> world" where
  "session_get c ps extra_headers w =
     (let w1 = w\<lparr>sent := sent w @ [make_request c ps extra_headers]\<rparr>
      in case pending w1 of
           [] \<Rightarrow> (Inl ConnectionError, w1)
         | r # rs \<Rightarrow> (Inr r, w1\<lparr>pending := rs\<rparr>))"

text \<open>
  \<open>time.sleep(d)\<close>. The duration is turned into a signed 64-bit count of nanoseconds,
  rounded up: a negative duration raises \<open>ValueError\<close>, one of \<open>2^63\<close> nanoseconds or
  more raises \<open>OverflowError\<close>.
\<close>

definition time_sleep :: "real \<Rightarrow> world \<Rightarrow> error + world" where
  "time_sleep d w =
     (if d < 0 then Inl ValueError
      else if 2 ^ 63 \<le> \<lceil>d * 10 ^ 9\<rceil> then Inl OverflowError
      else Inr (w\<lparr>slept := slept w @ [d], now := now w + d\<rparr>))"

section \<open>github.py: the helpers\<close>

definition is_rate_limited :: "response \<Rightarrow> bool" where
  "is_rate_limited r =
     (if py_in ''rate limit'' (py_lower (resp_text r)) then True
      else header_get (resp_headers r) ''X-RateLimit-Remaining'' = Some ''0'')"

text \<open>
  \<open>_retry_after(response, attempt)\<close>; \<open>t\<close> is what \<open>time.time()\<close> returns. In
  \<open>reset_time - time.time()\<close> the int is turned into a float first, which raises
  \<open>OverflowError\<close> for an int that rounds to \<open>2^1024\<close> or beyond; the \<open>except\<close> clause
  catches \<open>ValueError\<close> only.
\<close>

definition exponential_backoff :: "int \<Rightarrow> real" where
  "exponential_backoff attempt = min (power_int 2 attempt) 60"

definition in_float_range :: "int \<Rightarrow> bool" where
  "in_float_range n = (\<bar>n\<bar> < 2 ^ 1024 - 2 ^ 970)"

definition retry_after :: "response \<Rightarrow> int \<Rightarrow> real \<Rightarrow> error + real" where
  "retry_after r attempt t =
     (case header_get (resp_headers r) ''X-RateLimit-Reset'' of
        None \<Rightarrow> Inr (exponential_backoff attempt)
      | Some reset_header \<Rightarrow>
          if reset_header \<noteq> [] then
            (case py_int reset_header of
               Some reset_time \<Rightarrow>
                 if in_float_range reset_time then Inr (max (of_int reset_time - t) 1)
                 else Inl OverflowError
             | None \<Rightarrow> Inr (exponential_backoff attempt))
          else Inr (exponential_backoff attempt))"

definition extract_error_message :: "response \<Rightarrow> error + json" where
  "extract_error_message r =
     (case resp_json r of
        None \<Rightarrow> Inr (JStr (resp_text r))
      | Some payload \<Rightarrow> py_get payload ''message'' (JStr (resp_text r)))"

text \<open>One item of \<open>_parse_items\<close>: the body of its loop, in the order Python evaluates
  it.\<close>

definition parse_item :: "json \<Rightarrow> error + SearchResult" where
  "parse_item item =
     bind_err (py_get item ''repository'' (JObj [])) (\<lambda>repo.
     bind_err (py_get item ''text_matches'' JNull) (\<lambda>tm.
     let text_matches = py_or tm (JArr []) in
     bind_err (if py_truthy text_matches
               then bind_err (py_index0 text_matches) (\<lambda>first. py_get first ''fragment'' JNull)
               else Inr JNull) (\<lambda>snip.
     bind_err (py_get repo ''full_name'' (JStr ''unknown/repo'')) (\<lambda>full_name.
     bind_err (py_get item ''path'' (JStr [])) (\<lambda>p.
     bind_err (py_get item ''html_url'' (JStr [])) (\<lambda>u.
     bind_err (py_get item ''score'' JNull) (\<lambda>sc.
     Inr \<lparr>repository = full_name, path = p, url = u,
          score = py_or sc (JFloat 0), snippet = snip\<rparr>)))))))"

fun parse_loop :: "json list \<Rightarrow> SearchResult list \<Rightarrow> error + SearchResult list" where
  "parse_loop [] parsed = Inr parsed"
| "parse_loop (item # rest) parsed =
     (case parse_item item of
        Inl e \<Rightarrow> Inl e
      | Inr res \<Rightarrow> parse_loop rest (parsed @ [res]))"

definition parse_items :: "json \<Rightarrow> error + SearchResult list" where
  "parse_items items = bind_err (py_iter items) (\<lambda>xs. parse_loop xs [])"

section \<open>github.py: the retry loop and the page loop\<close>

text \<open>
  \<open>_request_with_retry\<close>: the loop over \<open>range(1, MAX_RETRIES + 1)\<close>.
\<close>

fun retry_loop ::
  "(json \<Rightarrow> string) \<Rightarrow> GitHubSearchClient \<Rightarrow> params \<Rightarrow> headers \<Rightarrow> int list \<Rightarrow> world
     \<Rightarrow> (error + json) \<times> world" where
  "retry_loop repr_of c ps hs [] w =
     (Inl (GitHubAPIError ''Retry limit exceeded while calling GitHub API''), w)"
| "retry_loop repr_of c ps hs (attempt # rest) w =
     (case session_get c ps hs w of
        (Inl e, w1) \<Rightarrow> (Inl e, w1)
      | (Inr r, w1) \<Rightarrow>
          if status_code r = 200 then
            (case resp_json r of
               None \<Rightarrow> (Inl JSONDecodeError, w1)
             | Some payload \<Rightarrow> (Inr payload, w1))
          else if status_code r = 403 \<and> is_rate_limited r then
            (case retry_after r attempt (now w1) of
               Inl e \<Rightarrow> (Inl e, w1)
             | Inr wait_seconds \<Rightarrow>
                 (case time_sleep wait_seconds w1 of
                    Inl e \<Rightarrow> (Inl e, w1)
                  | Inr w2 \<Rightarrow> retry_loop repr_of c ps hs rest w2))
          else if status_code r = 401 then
            (Inl (GitHubAPIError ''GitHub rejected the token (401 Unauthorized)''), w1)
          else
            (case extract_error_message r of
               Inl e \<Rightarrow> (Inl e, w1)
             | Inr message \<Rightarrow>
                 (Inl (GitHubAPIError
                    (''GitHub API error '' @ py_str_int (status_code r) @ '': ''
                       @ py_str repr_of message)), w1)))"

definition request_with_retry ::
  "(json \<Rightarrow> string) \<Rightarrow> GitHubSearchClient \<Rightarrow> params \<Rightarrow> headers \<Rightarrow> world
     \<Rightarrow> (error + json) \<times> world" where
  "request_with_retry repr_of c ps hs w = retry_loop repr_of c ps hs [1 .. MAX_RETRIES] w"

text \<open>One round of the page loop of \<open>search_code\<close>: the results so far extended by
  the page, and whether the loop breaks.\<close>

definition search_page ::
  "(json \<Rightarrow> string) \<Rightarrow> GitHubSearchClient \<Rightarrow> QuerySpec \<Rightarrow> int \<Rightarrow> headers \<Rightarrow> int
     \<Rightarrow> SearchResult list \<Rightarrow> world \<Rightarrow> (error + SearchResult list \<times> bool) \<times> world" where
  "search_page repr_of c spec pp hs pg results w =
     (let ps = \<lparr>param_q = build spec, param_per_page = pp, param_page = pg\<rparr>
      in case request_with_retry repr_of c ps hs w of
           (Inl e, w1) \<Rightarrow> (Inl e, w1)
         | (Inr payload, w1) \<Rightarrow>
             (bind_err (py_get payload ''items'' (JArr [])) (\<lambda>items.
              bind_err (parse_items items) (\<lambda>parsed.
              bind_err (py_len items) (\<lambda>n.
              Inr (results @ parsed, n < pp)))), w1))"

fun search_loop ::
  "(json \<Rightarrow> string) \<Rightarrow> GitHubSearchClient \<Rightarrow> QuerySpec \<Rightarrow> int \<Rightarrow> headers \<Rightarrow> int list
     \<Rightarrow> SearchResult list \<Rightarrow> world \<Rightarrow> (error + SearchResult list) \<times> world" where
  "search_loop repr_of c spec pp hs [] results w = (Inr results, w)"
| "search_loop repr_of c spec pp hs (pg # rest) results w =
     (case search_page repr_of c spec pp hs pg results w of
        (Inl e, w1) \<Rightarrow> (Inl e, w1)
      | (Inr (results1, stop), w1) \<Rightarrow>
          if stop then (Inr results1, w1)
          else search_loop repr_of c spec pp hs rest results1 w1)"

definition search_code ::
  "(json \<Rightarrow> string) \<Rightarrow> GitHubSearchClient \<Rightarrow> QuerySpec \<Rightarrow> int \<Rightarrow> int \<Rightarrow> bool \<Rightarrow> world
     \<Rightarrow> (error + SearchResult list) \<times> world" where
  "search_code repr_of c spec pp pages text_matches w =
     (let hs = (if text_matches
                then [(''Accept'', ''application/vnd.github.v3.text-match+json'')]
                else [])
      in search_loop repr_of c spec pp hs [1 .. pages] [] w)"

section \<open>Vocabulary of the properties\<close>




definition after_sleep :: "real \<Rightarrow> world \<Rightarrow> world" where
  "after_sleep d w = w\<lparr>slept := slept w @ [d], now := now w + d\<rparr>"

text \<open>What \<open>response.json()\<close> returns or raises.\<close>

definition json_of :: "response \<Rightarrow> error + json" where
  "json_of r = (case resp_json r of None \<Rightarrow> Inl JSONDecodeError | Some payload \<Rightarrow> Inr payload)"

text \<open>The world after one exchange that took the response at the head of \<open>pending\<close>.\<close>

definition exchanged :: "GitHubSearchClient \<Rightarrow> params \<Rightarrow> headers \<Rightarrow> world \<Rightarrow> world" where
  "exchanged c ps hs w = w\<lparr>sent := sent w @ [make_request c ps hs], pending := tl (pending w)\<rparr>"

text \<open>The parameters of the request for one page.\<close>

definition page_params :: "QuerySpec \<Rightarrow> int \<Rightarrow> int \<Rightarrow> params" where
  "page_params spec pp pg = \<lparr>param_q = build spec, param_per_page = pp, param_page = pg\<rparr>"

text \<open>The headers \<open>search_code\<close> passes with each request.\<close>

definition call_headers :: "bool \<Rightarrow> headers" where
  "call_headers text_matches =
     (if text_matches then [(''Accept'', ''application/vnd.github.v3.text-match+json'')] else [])"

text \<open>The \<open>items\<close> array of a page that is answered at once with status 200 and a JSON
  object (a missing \<open>items\<close> is the empty array); \<open>None\<close> for any other response.\<close>

definition page_items :: "response \<Rightarrow> json list option" where
  "page_items r =
     (if status_code r = 200 then
        (case resp_json r of
           Some (JObj kvs) \<Rightarrow>
             (case map_of kvs ''items'' of
                None \<Rightarrow> Some []
              | Some (JArr xs) \<Rightarrow> Some xs
              | Some _ \<Rightarrow> None)
         | _ \<Rightarrow> None)
      else None)"

text \<open>The results parsed from such a page; \<open>None\<close> when there is no such page or an
  item does not parse.\<close>

definition page_results :: "response \<Rightarrow> SearchResult list option" where
  "page_results r =
     (case page_items r of
        None \<Rightarrow> None
      | Some xs \<Rightarrow> (case parse_loop xs [] of Inl e \<Rightarrow> None | Inr parsed \<Rightarrow> Some parsed))"

definition good_page :: "response \<Rightarrow> bool" where
  "good_page r = (page_results r \<noteq> None)"

definition items_of :: "response \<Rightarrow> json list" where
  "items_of r = (case page_items r of None \<Rightarrow> [] | Some xs \<Rightarrow> xs)"

definition results_of :: "response \<Rightarrow> SearchResult list" where
  "results_of r = (case page_results r of None \<Rightarrow> [] | Some parsed \<Rightarrow> parsed)"

text \<open>A page with strictly fewer than \<open>per_page\<close> items.\<close>

definition short_page :: "int \<Rightarrow> response \<Rightarrow> bool" where
  "short_page pp r = (int (length (items_of r)) < pp)"


text \<open>
  The page loop reaches a page: \<open>loop_reaches \<dots> pgs0 res0 w0 pgs res w\<close> says that
  the loop started on the pages \<open>pgs0\<close> with the results \<open>res0\<close> in the world \<open>w0\<close>
  stands, after some rounds that neither raised nor broke, before the pages \<open>pgs\<close> with
  the results \<open>res\<close> in the world \<open>w\<close>.
\<close>

inductive loop_reaches ::
  "(json \<Rightarrow> string) \<Rightarrow> GitHubSearchClient \<Rightarrow> QuerySpec \<Rightarrow> int \<Rightarrow> headers
     \<Rightarrow> int list \<Rightarrow> SearchResult list \<Rightarrow> world
     \<Rightarrow> int list \<Rightarrow> SearchResult list \<Rightarrow> world \<Rightarrow> bool"
  for repr_of c spec pp hs pgs0 res0 w0 where
  at_start: "loop_reaches repr_of c spec pp hs pgs0 res0 w0 pgs0 res0 w0"
| next_page:
    "loop_reaches repr_of c spec pp hs pgs0 res0 w0 (pg # rest) res w \<Longrightarrow>
     search_page repr_of c spec pp hs pg res w = (Inr (res1, False), w1) \<Longrightarrow>
     loop_reaches repr_of c spec pp hs pgs0 res0 w0 rest res1 w1"

text \<open>
  The item parsing rule in the words of the specification. \<open>field_or\<close> reads a field
  with a default; \<open>typed_item\<close> says that the fields the rule descends into have the
  shape the API gives them: \<open>repository\<close>, when present, is an object, and
  \<open>text_matches\<close>, when present and truthy, is an array whose first entry is an object.
\<close>

definition field_or :: "(string \<times> json) list \<Rightarrow> string \<Rightarrow> json \<Rightarrow> json" where
  "field_or kvs k d = (case map_of kvs k of None \<Rightarrow> d | Some v \<Rightarrow> v)"

definition is_object :: "json \<Rightarrow> bool" where
  "is_object v = (case v of JObj kvs \<Rightarrow> True | _ \<Rightarrow> False)"

definition typed_item :: "(string \<times> json) list \<Rightarrow> bool" where
  "typed_item kvs =
     ((case map_of kvs ''repository'' of None \<Rightarrow> True | Some v \<Rightarrow> is_object v)
      \<and> (case map_of kvs ''text_matches'' of
           None \<Rightarrow> True
         | Some v \<Rightarrow>
             \<not> py_truthy v \<or> (case v of JArr (x # xs) \<Rightarrow> is_object x | _ \<Rightarrow> False)))"

definition expected_result :: "(string \<times> json) list \<Rightarrow> SearchResult" where
  "expected_result kvs =
     \<lparr>repository =
        (case map_of kvs ''repository'' of
           Some (JObj repo) \<Rightarrow> field_or repo ''full_name'' (JStr ''unknown/repo'')
         | _ \<Rightarrow> JStr ''unknown/repo''),
      path = field_or kvs ''path'' (JStr []),
      url = field_or kvs ''html_url'' (JStr []),
      score =
        (case map_of kvs ''score'' of
           None \<Rightarrow> JFloat 0
         | Some s \<Rightarrow> if py_truthy s then s else JFloat 0),
      snippet =
        (case map_of kvs ''text_matches'' of
           Some (JArr (JObj first # rest)) \<Rightarrow> field_or first ''fragment'' JNull
         | _ \<Rightarrow> JNull)\<rparr>"

section \<open>Example data\<close>

text \<open>A client as \<open>cli.py\<close> builds it, a query, and responses of the kinds the API
  gives; each \<open>resp_json\<close> is the decoding of its \<open>resp_text\<close>.\<close>

definition example_client :: GitHubSearchClient where
  "example_client = init_client ''t0ken'' DEFAULT_BASE_URL ''BugZero/0.1'' []"

definition example_spec :: QuerySpec where
  "example_spec = \<lparr>query = ''memory leak'', qualifiers = [(''language'', ''go'')]\<rparr>"

text \<open>A query with whitespace to collapse and to strip, a qualifier whose key strips
  to empty and one whose value does.\<close>

definition untidy_spec :: QuerySpec where
  "untidy_spec =
     \<lparr>query = ''  foo   bar'' @ [CHR 0x0A],
      qualifiers = [('' language '', [CHR 0x09] @ ''go  ''), (''  '', ''x''),
                    (''archived '', [CHR 0x09, CHR 0x20])]\<rparr>"


definition example_world :: "response list \<Rightarrow> world" where
  "example_world rs = \<lparr>pending = rs, sent = [], slept = [], now = 1700000000\<rparr>"

definition resp_limit_body :: response where
  \<open>resp_limit_body =
     \<lparr>status_code = 403,
      resp_text = ''{"message": "API Rate Limit exceeded for 10.0.0.1"}'',
      resp_headers = [],
      resp_json = Some (JObj [(''message'', JStr ''API Rate Limit exceeded for 10.0.0.1'')])\<rparr>\<close>

definition resp_limit_header :: response where
  \<open>resp_limit_header =
     \<lparr>status_code = 403,
      resp_text = ''{"message": "Forbidden"}'',
      resp_headers = [(''X-RateLimit-Remaining'', ''0''), (''X-RateLimit-Reset'', ''1700000100'')],
      resp_json = Some (JObj [(''message'', JStr ''Forbidden'')])\<rparr>\<close>

text \<open>Rate limits whose reset time cannot be waited for: one given in milliseconds,
  one of 400 digits. And one whose reset time starts with the separator 0x1F.\<close>

definition resp_limit_millis :: response where
  \<open>resp_limit_millis =
     \<lparr>status_code = 403,
      resp_text = ''{"message": "Forbidden"}'',
      resp_headers = [(''X-RateLimit-Remaining'', ''0''), (''X-RateLimit-Reset'', ''1700000100000'')],
      resp_json = Some (JObj [(''message'', JStr ''Forbidden'')])\<rparr>\<close>

definition resp_limit_huge :: response where
  \<open>resp_limit_huge =
     \<lparr>status_code = 403,
      resp_text = ''{"message": "Forbidden"}'',
      resp_headers = [(''X-RateLimit-Remaining'', ''0''),
                      (''X-RateLimit-Reset'', CHR ''1'' # replicate 400 CHR ''0'')],
      resp_json = Some (JObj [(''message'', JStr ''Forbidden'')])\<rparr>\<close>

definition resp_limit_spaced :: response where
  \<open>resp_limit_spaced =
     \<lparr>status_code = 403,
      resp_text = ''{"message": "Forbidden"}'',
      resp_headers = [(''x-ratelimit-remaining'', ''0''), (''x-ratelimit-reset'', '' +1_700_000_100 '')],
      resp_json = Some (JObj [(''message'', JStr ''Forbidden'')])\<rparr>\<close>

definition resp_limit_separator :: response where
  \<open>resp_limit_separator =
     \<lparr>status_code = 403,
      resp_text = ''{"message": "Forbidden"}'',
      resp_headers = [(''X-RateLimit-Remaining'', ''0''), (''X-RateLimit-Reset'', CHR 0x1F # ''130'')],
      resp_json = Some (JObj [(''message'', JStr ''Forbidden'')])\<rparr>\<close>

definition resp_forbidden :: response where
  \<open>resp_forbidden =
     \<lparr>status_code = 403,
      resp_text = ''{"message": "Forbidden"}'',
      resp_headers = [(''X-RateLimit-Remaining'', ''57'')],
      resp_json = Some (JObj [(''message'', JStr ''Forbidden'')])\<rparr>\<close>

definition resp_unauthorized :: response where
  \<open>resp_unauthorized =
     \<lparr>status_code = 401,
      resp_text = ''{"message": "Bad credentials"}'',
      resp_headers = [],
      resp_json = Some (JObj [(''message'', JStr ''Bad credentials'')])\<rparr>\<close>

definition resp_bad_gateway :: response where
  "resp_bad_gateway =
     \<lparr>status_code = 502, resp_text = ''Bad Gateway'', resp_headers = [], resp_json = None\<rparr>"

definition resp_error_object :: response where
  "resp_error_object =
     \<lparr>status_code = 500, resp_text = ''{}'', resp_headers = [], resp_json = Some (JObj [])\<rparr>"

definition resp_error_array :: response where
  "resp_error_array =
     \<lparr>status_code = 500, resp_text = ''[]'', resp_headers = [], resp_json = Some (JArr [])\<rparr>"

definition resp_no_items :: response where
  \<open>resp_no_items =
     \<lparr>status_code = 200,
      resp_text = ''{"total_count": 0, "items": []}'',
      resp_headers = [],
      resp_json = Some (JObj [(''total_count'', JInt 0), (''items'', JArr [])])\<rparr>\<close>

definition item_full :: "(string \<times> json) list" where
  "item_full =
     [(''path'', JStr ''src/pool.go''),
      (''html_url'', JStr ''https://github.com/octo/leaks/blob/main/src/pool.go''),
      (''repository'', JObj [(''id'', JInt 7), (''full_name'', JStr ''octo/leaks'')]),
      (''score'', JFloat 1.5),
      (''text_matches'', JArr [JObj [(''fragment'', JStr ''memory leak in pool'')],
                              JObj [(''fragment'', JStr ''second match'')]])]"

definition item_sparse :: "(string \<times> json) list" where
  "item_sparse = [(''path'', JStr ''README.md''), (''score'', JNull), (''text_matches'', JArr [])]"

definition item_null_repository :: "(string \<times> json) list" where
  "item_null_repository = [(''path'', JStr ''README.md''), (''repository'', JNull)]"

definition item_plain_match :: "(string \<times> json) list" where
  "item_plain_match = [(''path'', JStr ''README.md''), (''text_matches'', JArr [JStr ''leak''])]"

definition item_sparse_text :: string where
  \<open>item_sparse_text = ''{"path": "README.md", "score": null, "text_matches": []}''\<close>

text \<open>A page of \<open>n\<close> items, answered with status 200.\<close>

definition page_of :: "nat \<Rightarrow> response" where
  \<open>page_of n =
     \<lparr>status_code = 200,
      resp_text = ''{"items": ['' @ py_join '', '' (replicate n item_sparse_text) @ '']}'',
      resp_headers = [],
      resp_json = Some (JObj [(''items'', JArr (replicate n (JObj item_sparse)))])\<rparr>\<close>

definition sparse_result :: SearchResult where
  "sparse_result =
     \<lparr>repository = JStr ''unknown/repo'', path = JStr ''README.md'', url = JStr [],
      score = JFloat 0, snippet = JNull\<rparr>"

section \<open>Properties of QuerySpec.build\<close>

lemma spec_words_Nil: "spec_words [] = []"
  by (simp add: spec_words.simps)

lemma spec_words_space: "py_isspace c \<Longrightarrow> spec_words (c # cs) = spec_words cs"
  by (simp add: spec_words.simps [of "c # cs"] spec_words.simps [of cs])

lemma spec_words_letter:
  "\<not> py_isspace c \<Longrightarrow>
   spec_words (c # cs) =
     (c # takeWhile (\<lambda>c. \<not> py_isspace c) cs) # spec_words (dropWhile (\<lambda>c. \<not> py_isspace c) cs)"
  by (simp add: spec_words.simps [of "c # cs"])

text \<open>\<open>str.split()\<close> gives the words of the specification, \<open>str.strip()\<close> the
  stripped text.\<close>

lemma py_split_from_spec:
  "py_split_from cur s =
     (if cur = [] then spec_words s
      else (cur @ takeWhile (\<lambda>c. \<not> py_isspace c) s)
           # spec_words (dropWhile (\<lambda>c. \<not> py_isspace c) s))"
proof (induction s arbitrary: cur)
  case Nil
  then show ?case by (simp add: spec_words_Nil)
next
  case (Cons c cs)
  show ?case
  proof (cases "py_isspace c")
    case True
    then show ?thesis
      by (simp add: Cons.IH spec_words_space)
  next
    case False
    then show ?thesis
      by (simp add: Cons.IH spec_words_letter)
  qed
qed

lemma py_split_spec: "py_split s = spec_words s"
  by (simp add: py_split_def py_split_from_spec)

lemma py_strip_spec: "py_strip s = spec_strip s"
  by (simp add: py_strip_def spec_strip_def Let_def dropWhile_eq_drop [of _ "rev _"] rev_drop)

lemma build_loop_parts:
  "parts (build_loop qs fr) = parts fr @ concat (map render_qualifier qs)"
  by (induction qs arbitrary: fr)
    (auto simp: build_step_def render_qualifier_def Let_def py_strip_spec)

lemma build_loop_self: "self (build_loop qs fr) = self fr"
  by (induction qs arbitrary: fr) (auto simp: build_step_def Let_def)

lemma build_example:
  "build \<lparr>query = ''memory leak'', qualifiers = [(''language'', ''go'')]\<rparr>
     = ''memory leak language:go''"
  by (simp add: build_def build_call_def build_body_def build_step_def py_split_def
      py_strip_def py_isspace_def whitespace_chars_def Let_def)

lemma build_untidy: "build untidy_spec = ''foo bar language:go archived''"
  by (simp add: untidy_spec_def build_def build_call_def build_body_def build_step_def
      py_split_def py_strip_def py_isspace_def whitespace_chars_def Let_def)

text \<open>
  Claim C4. For every QuerySpec, \<open>build()\<close> returns the whitespace-normalized query text
  (split on whitespace, rejoined with single spaces, dropped when empty) followed by
  one rendered segment per qualifier in the order supplied, joined by single spaces: a
  qualifier whose key strips to empty is left out, one whose value strips to empty is
  the bare key, any other is \<open>key:value\<close>. In particular
  \<open>QuerySpec("memory leak", [("language","go")]).build()\<close> is
  \<open>"memory leak language:go"\<close>, and a query with runs of whitespace, a line feed at its
  end, padded qualifiers, a blank key and a blank value builds to
  \<open>"foo bar language:go archived"\<close>.
\<close>

theorem build_renders_query_then_qualifiers:
  "build s =
     py_join '' '' (normalized_query (query s) @ concat (map render_qualifier (qualifiers s)))
   \<and> build \<lparr>query = ''memory leak'', qualifiers = [(''language'', ''go'')]\<rparr>
       = ''memory leak language:go''
   \<and> build untidy_spec = ''foo bar language:go archived''"
proof (intro conjI)
  show "build s =
     py_join '' '' (normalized_query (query s) @ concat (map render_qualifier (qualifiers s)))"
    by (simp add: build_def build_call_def build_body_def normalized_query_def Let_def
        build_loop_parts py_split_spec)
  show "build \<lparr>query = ''memory leak'', qualifiers = [(''language'', ''go'')]\<rparr>
       = ''memory leak language:go''"
    by (rule build_example)
  show "build untidy_spec = ''foo bar language:go archived''"
    by (rule build_untidy)
qed

text \<open>
  Claim C9. \<open>build()\<close> is a pure function of the fields of the QuerySpec: the object
  after the call is the object before it (query and qualifiers unchanged), and a second
  call on the same instance returns the same string and leaves the same object.
\<close>

theorem build_is_pure:
  "build_call s = (build s, s) \<and> build_call (snd (build_call s)) = build_call s"
  by (simp add: build_def build_call_def build_body_def Let_def build_loop_self)
section \<open>The backoff policy\<close>

lemma py_int_Nil: "py_int [] = None"
  by (simp add: py_int_def)

lemma exponential_backoff_pos:
  "1 \<le> attempt \<Longrightarrow> exponential_backoff attempt = min (2 ^ nat attempt) 60"
  by (simp add: exponential_backoff_def power_int_def)

lemma header_get_Nil: "header_get [] name = None"
  by (simp add: header_get_def)

lemma py_lower_reset:
  "py_lower ''X-RateLimit-Reset'' = ''x-ratelimit-reset''"
  "py_lower ''X-RateLimit-Remaining'' = ''x-ratelimit-remaining''"
  "py_lower ''x-ratelimit-reset'' = ''x-ratelimit-reset''"
  "py_lower ''x-ratelimit-remaining'' = ''x-ratelimit-remaining''"
  by code_simp+

lemma reset_header_examples:
  "header_get (resp_headers resp_limit_body) ''X-RateLimit-Reset'' = None"
  "header_get (resp_headers resp_limit_header) ''X-RateLimit-Reset'' = Some ''1700000100''"
  "header_get (resp_headers resp_limit_spaced) ''X-RateLimit-Reset'' = Some '' +1_700_000_100 ''"
  "header_get (resp_headers resp_limit_separator) ''X-RateLimit-Reset'' = Some (CHR 0x1F # ''130'')"
  "header_get (resp_headers resp_limit_millis) ''X-RateLimit-Reset'' = Some ''1700000100000''"
  "header_get (resp_headers resp_limit_huge) ''X-RateLimit-Reset''
     = Some (CHR ''1'' # replicate 400 CHR ''0'')"
  by (simp_all add: resp_limit_body_def resp_limit_header_def resp_limit_spaced_def
      resp_limit_separator_def resp_limit_millis_def resp_limit_huge_def header_get_def
      py_lower_reset)

lemma py_int_examples:
  "py_int ''1700000100'' = Some 1700000100"
  "py_int '' +1_700_000_100 '' = Some 1700000100"
  "py_int ''1700000100000'' = Some 1700000100000"
  "py_int (CHR 0x1F # ''130'') = None"
  "py_int ''soon'' = None"
  by (simp_all add: py_int_def int_isspace_def int_space_chars_def digit_value_def
      digit_chars_def INT_MAX_STR_DIGITS_def upt_rec)

lemma py_digits_zeros:
  "py_digits acc True (replicate n CHR ''0'') = Some (acc * 10 ^ n)"
  by (induction n arbitrary: acc) (simp_all add: digit_value_def digit_chars_def upt_rec)

lemma dropWhile_unchanged: "xs \<noteq> [] \<Longrightarrow> \<not> P (hd xs) \<Longrightarrow> dropWhile P xs = xs"
  by (cases xs) simp_all

lemma int_strip_id:
  assumes "s \<noteq> []" and "\<not> int_isspace (hd s)" and "\<not> int_isspace (last s)"
  shows "rev (dropWhile int_isspace (rev (dropWhile int_isspace s))) = s"
proof -
  have "dropWhile int_isspace s = s"
    using assms(1,2) by (rule dropWhile_unchanged)
  moreover have "dropWhile int_isspace (rev s) = rev s"
    using assms(1,3) by (intro dropWhile_unchanged) (simp_all add: hd_rev)
  ultimately show ?thesis
    by simp
qed

lemma py_int_huge: "py_int (CHR ''1'' # replicate 400 CHR ''0'') = Some (10 ^ 400)"
proof -
  have z: "\<not> int_isspace CHR ''0''" "\<not> int_isspace CHR ''1''"
    by (simp_all add: int_isspace_def int_space_chars_def)
  have s: "rev (dropWhile int_isspace (rev (dropWhile int_isspace
      (CHR ''1'' # replicate 400 CHR ''0'')))) = CHR ''1'' # replicate 400 CHR ''0''"
    by (rule int_strip_id) (simp_all add: z)
  have d: "digit_value CHR ''0'' \<noteq> None" "digit_value CHR ''1'' = Some 1"
    by (simp_all add: digit_value_def digit_chars_def upt_rec)
  have n: "length (filter (\<lambda>x. digit_value x \<noteq> None) (CHR ''1'' # replicate 400 CHR ''0'')) = 401"
    using d by (simp add: filter_replicate)
  have p: "py_digits 0 False (CHR ''1'' # replicate 400 CHR ''0'') = Some (10 ^ 400)"
    using py_digits_zeros [of 1 400] by (simp add: d)
  show ?thesis
    unfolding py_int_def s list.case n p by (simp add: INT_MAX_STR_DIGITS_def)
qed

lemma float_range_examples:
  "in_float_range 1700000100" "in_float_range 1700000100000" "\<not> in_float_range (10 ^ 400)"
  by (simp_all add: in_float_range_def)

text \<open>
  Claim C5, as amended. For every response and every 1-based attempt number, the wait
  computed by \<open>_retry_after\<close> is \<open>max(reset_timestamp - current_time, 1)\<close> when the
  \<open>X-RateLimit-Reset\<close> header is present and parses as an integer that is within the
  range of a float, and \<open>min(2^attempt, 60)\<close> when the header is absent or does not
  parse. The times are real numbers here; \<open>t\<close> is the current time.
\<close>

theorem retry_after_policy:
  assumes "1 \<le> attempt"
  shows "case header_get (resp_headers r) ''X-RateLimit-Reset'' of
        None \<Rightarrow> retry_after r attempt t = Inr (min (2 ^ nat attempt) 60)
      | Some h \<Rightarrow>
          (case py_int h of
             None \<Rightarrow> retry_after r attempt t = Inr (min (2 ^ nat attempt) 60)
           | Some reset_timestamp \<Rightarrow>
               in_float_range reset_timestamp \<longrightarrow>
               retry_after r attempt t = Inr (max (of_int reset_timestamp - t) 1))"
proof (cases "header_get (resp_headers r) ''X-RateLimit-Reset''")
  case None
  then show ?thesis
    by (simp add: retry_after_def exponential_backoff_pos [OF assms])
next
  case (Some h)
  show ?thesis
  proof (cases "h = []")
    case True
    then show ?thesis
      using Some by (simp add: retry_after_def exponential_backoff_pos [OF assms] py_int_Nil)
  next
    case False
    then show ?thesis
      using Some
      by (cases "py_int h") (simp_all add: retry_after_def exponential_backoff_pos [OF assms])
  qed
qed

text \<open>The policy at examples: a reset time 100 seconds ahead; a reset time that has
  been reached; a reset time written with blanks, a sign and underscores under a
  lower-case header name; a reset time behind the separator 0x1F, which \<open>int\<close> refuses,
  on attempt 3; no header on attempt 6.\<close>

theorem retry_after_policy_witness:
  "retry_after resp_limit_header 1 1700000000 = Inr 100
   \<and> retry_after resp_limit_header 1 1700000100 = Inr 1
   \<and> retry_after resp_limit_spaced 2 1700000000 = Inr 100
   \<and> retry_after resp_limit_separator 3 1700000000 = Inr 8
   \<and> retry_after resp_limit_body 6 1700000000 = Inr 60"
proof -
  have one: "(1::int) \<le> 1" "(1::int) \<le> 2" "(1::int) \<le> 3" "(1::int) \<le> 6"
    by simp_all
  show ?thesis
    using retry_after_policy [OF one(1), of resp_limit_header 1700000000]
      retry_after_policy [OF one(1), of resp_limit_header 1700000100]
      retry_after_policy [OF one(2), of resp_limit_spaced 1700000000]
      retry_after_policy [OF one(3), of resp_limit_separator 1700000000]
      retry_after_policy [OF one(4), of resp_limit_body 1700000000]
    by (simp add: reset_header_examples py_int_examples float_range_examples)
qed

text \<open>
  Claim C5 as first stated fails: a reset header of 401 digits is present and parses
  as an integer, and \<open>reset_time - time.time()\<close> raises \<open>OverflowError\<close>, which
  \<open>_retry_after\<close> does not catch: no wait is computed.
\<close>

theorem retry_after_overflow_counterexample:
  "header_get (resp_headers resp_limit_huge) ''X-RateLimit-Reset''
     = Some (CHR ''1'' # replicate 400 CHR ''0'')
   \<and> py_int (CHR ''1'' # replicate 400 CHR ''0'') = Some (10 ^ 400)
   \<and> retry_after resp_limit_huge 1 1700000000 = Inl OverflowError"
  by (simp add: retry_after_def reset_header_examples py_int_huge in_float_range_def)
section \<open>The page loop\<close>

text \<open>
  Claim C10. For every QuerySpec and every per_page, \<open>search_code\<close> called with
  \<open>pages < 1\<close> sends no HTTP request (the world is unchanged) and returns the empty list;
  it raises nothing about the argument.
\<close>

theorem search_code_no_pages:
  assumes "pages < 1"
  shows "search_code repr_of c spec pp pages text_matches w = (Inr [], w)"
proof -
  have "[1 .. pages] = []"
    using assms by simp
  then show ?thesis
    by (simp add: search_code_def)
qed

theorem search_code_no_pages_witness:
  "search_code (\<lambda>v. []) (init_client ''t0ken'' DEFAULT_BASE_URL ''BugZero/0.1'' [])
      \<lparr>query = ''memory leak'', qualifiers = []\<rparr> 30 0 True
      \<lparr>pending = [], sent = [], slept = [], now = 0\<rparr>
     = (Inr [], \<lparr>pending = [], sent = [], slept = [], now = 0\<rparr>)
   \<and> search_code (\<lambda>v. []) (init_client ''t0ken'' DEFAULT_BASE_URL ''BugZero/0.1'' [])
      \<lparr>query = ''memory leak'', qualifiers = []\<rparr> 30 (- 2) False
      \<lparr>pending = [], sent = [], slept = [], now = 0\<rparr>
     = (Inr [], \<lparr>pending = [], sent = [], slept = [], now = 0\<rparr>)"
proof -
  have a: "(0::int) < 1" and b: "(- 2::int) < 1"
    by simp_all
  show ?thesis
    using search_code_no_pages [OF a] search_code_no_pages [OF b] by simp
qed
section \<open>The retry loop\<close>

lemma session_get_Cons:
  "pending w = r # rs \<Longrightarrow> session_get c ps hs w = (Inr r, exchanged c ps hs w)"
  by (simp add: session_get_def exchanged_def Let_def)

lemma exchanged_fields:
  "sent (exchanged c ps hs w) = sent w @ [make_request c ps hs]"
  "pending (exchanged c ps hs w) = tl (pending w)"
  "slept (exchanged c ps hs w) = slept w"
  "now (exchanged c ps hs w) = now w"
  by (simp_all add: exchanged_def)

lemma after_sleep_fields:
  "sent (after_sleep d w) = sent w"
  "pending (after_sleep d w) = pending w"
  "slept (after_sleep d w) = slept w @ [d]"
  "now (after_sleep d w) = now w + d"
  by (simp_all add: after_sleep_def)


lemma time_sleep_Inr: "time_sleep d w = Inr w2 \<Longrightarrow> w2 = after_sleep d w"
  by (simp add: time_sleep_def after_sleep_def split: if_splits)





lemma retry_loop_200:
  assumes "pending w = r # rs" and "status_code r = 200"
  shows "retry_loop repr_of c ps hs (a # as) w = (json_of r, exchanged c ps hs w)"
  using assms by (simp add: session_get_Cons json_of_def split: option.splits)

lemma retry_loop_rate_limited:
  assumes "pending w = r # rs" and "status_code r = 403" and "is_rate_limited r"
  shows "retry_loop repr_of c ps hs (a # as) w =
     (case retry_after r a (now w) of
        Inl e \<Rightarrow> (Inl e, exchanged c ps hs w)
      | Inr d \<Rightarrow>
          (case time_sleep d (exchanged c ps hs w) of
             Inl e \<Rightarrow> (Inl e, exchanged c ps hs w)
           | Inr w2 \<Rightarrow> retry_loop repr_of c ps hs as w2))"
  using assms by (simp add: session_get_Cons exchanged_fields)


lemma retry_loop_401:
  assumes "pending w = r # rs" and "status_code r = 401"
  shows "retry_loop repr_of c ps hs (a # as) w =
     (Inl (GitHubAPIError ''GitHub rejected the token (401 Unauthorized)''), exchanged c ps hs w)"
  using assms by (simp add: session_get_Cons)

lemma retry_loop_other:
  assumes "pending w = r # rs" and "status_code r \<noteq> 200" and "status_code r \<noteq> 401"
    and "\<not> (status_code r = 403 \<and> is_rate_limited r)"
  shows "retry_loop repr_of c ps hs (a # as) w =
     (case extract_error_message r of
        Inl e \<Rightarrow> (Inl e, exchanged c ps hs w)
      | Inr message \<Rightarrow>
          (Inl (GitHubAPIError (''GitHub API error '' @ py_str_int (status_code r) @ '': ''
                  @ py_str repr_of message)), exchanged c ps hs w))"
  using assms by (auto simp: session_get_Cons)

lemma attempts: "[1 .. MAX_RETRIES] = [1, 2, 3]"
  by (simp add: MAX_RETRIES_def upto.simps)





lemma status_examples:
  "status_code resp_limit_body = 403" "status_code resp_limit_header = 403"
  "status_code resp_forbidden = 403" "status_code resp_unauthorized = 401"
  "status_code resp_bad_gateway = 502" "status_code resp_error_object = 500"
  "status_code resp_error_array = 500" "status_code resp_no_items = 200"
  "status_code resp_limit_millis = 403"
  by (simp_all add: resp_limit_body_def resp_limit_header_def resp_forbidden_def
      resp_unauthorized_def resp_bad_gateway_def resp_error_object_def resp_error_array_def
      resp_no_items_def resp_limit_millis_def)











section \<open>Item parsing\<close>

lemma py_get_JObj: "py_get (JObj kvs) k d = Inr (field_or kvs k d)"
  by (simp add: field_or_def)

lemma snippet_typed:
  assumes "\<not> py_truthy v \<or> (case v of JArr (x # xs) \<Rightarrow> is_object x | _ \<Rightarrow> False)"
  shows "(if py_truthy (py_or v (JArr []))
          then bind_err (py_index0 (py_or v (JArr []))) (\<lambda>first. py_get first ''fragment'' JNull)
          else Inr JNull)
       = Inr (case v of JArr (JObj first # rest) \<Rightarrow> field_or first ''fragment'' JNull | _ \<Rightarrow> JNull)"
proof (cases "py_truthy v")
  case False
  then show ?thesis
    by (cases v) (auto simp: py_or_def split: list.splits json.splits)
next
  case True
  with assms obtain first rest where "v = JArr (JObj first # rest)"
    by (auto simp: is_object_def split: json.splits list.splits)
  then show ?thesis
    by (simp add: py_or_def bind_err_def field_or_def)
qed

lemma parse_item_typed:
  assumes "typed_item kvs"
  shows "parse_item (JObj kvs) = Inr (expected_result kvs)"
proof -
  define v where "v = field_or kvs ''text_matches'' JNull"
  define rp where "rp = field_or kvs ''repository'' (JObj [])"
  have tm: "\<not> py_truthy v \<or> (case v of JArr (x # xs) \<Rightarrow> is_object x | _ \<Rightarrow> False)"
    using assms by (simp add: typed_item_def v_def field_or_def split: option.splits)
  obtain repo where rp: "rp = JObj repo"
    using assms
    by (auto simp: typed_item_def rp_def field_or_def is_object_def
        split: option.splits json.splits)
  have "parse_item (JObj kvs) =
      Inr \<lparr>repository = field_or repo ''full_name'' (JStr ''unknown/repo''),
           path = field_or kvs ''path'' (JStr []),
           url = field_or kvs ''html_url'' (JStr []),
           score = py_or (field_or kvs ''score'' JNull) (JFloat 0),
           snippet = (case v of JArr (JObj first # rest) \<Rightarrow> field_or first ''fragment'' JNull
                      | _ \<Rightarrow> JNull)\<rparr>"
    unfolding parse_item_def Let_def py_get_JObj v_def [symmetric] rp_def [symmetric]
    by (simp del: py_get.simps add: bind_err_def snippet_typed [OF tm] rp py_get_JObj)
  also have "\<dots> = Inr (expected_result kvs)"
    using rp
    by (simp add: expected_result_def v_def rp_def field_or_def py_or_def
        split: option.splits)
  finally show ?thesis .
qed

lemma parse_loop_typed:
  "list_all typed_item kvss \<Longrightarrow>
   parse_loop (map JObj kvss) parsed = Inr (parsed @ map expected_result kvss)"
  by (induction kvss arbitrary: parsed) (simp_all add: parse_item_typed)

text \<open>
  Claim C6, as amended. For every raw item object whose \<open>repository\<close>, when present, is
  an object and whose \<open>text_matches\<close>, when present and truthy, is an array whose first
  entry is an object, parsing yields a SearchResult with repository = the nested
  \<open>repository.full_name\<close>, or "unknown/repo" if absent; path and url defaulting to the
  empty string; score = the item's score, or 0.0 if absent or falsy; snippet = the
  \<open>fragment\<close> of the first entry of \<open>text_matches\<close> when that array is present and not
  empty, else absent. No missing field makes parsing fail, and a list of such items
  parses to the list of their results, in order.
\<close>

theorem parse_item_typed_fields:
  "(typed_item kvs \<longrightarrow> parse_item (JObj kvs) = Inr (expected_result kvs))
   \<and> (list_all typed_item kvss \<longrightarrow>
        parse_items (JArr (map JObj kvss)) = Inr (map expected_result kvss))"
  by (simp add: parse_item_typed parse_items_def bind_err_def parse_loop_typed)

lemma typed_examples:
  "typed_item item_full" "typed_item item_sparse" "typed_item []"
  by (simp_all add: typed_item_def item_full_def item_sparse_def is_object_def)

lemma expected_examples:
  "expected_result item_full =
     \<lparr>repository = JStr ''octo/leaks'', path = JStr ''src/pool.go'',
      url = JStr ''https://github.com/octo/leaks/blob/main/src/pool.go'',
      score = JFloat 1.5, snippet = JStr ''memory leak in pool''\<rparr>"
  "expected_result item_sparse =
     \<lparr>repository = JStr ''unknown/repo'', path = JStr ''README.md'', url = JStr [],
      score = JFloat 0, snippet = JNull\<rparr>"
  "expected_result [] =
     \<lparr>repository = JStr ''unknown/repo'', path = JStr [], url = JStr [],
      score = JFloat 0, snippet = JNull\<rparr>"
  by (simp_all add: expected_result_def field_or_def item_full_def item_sparse_def)

text \<open>An item with every field, an item with a null score and an empty
  \<open>text_matches\<close>, and the empty item.\<close>

theorem parse_item_typed_fields_witness:
  "parse_item (JObj item_full) =
     Inr \<lparr>repository = JStr ''octo/leaks'', path = JStr ''src/pool.go'',
          url = JStr ''https://github.com/octo/leaks/blob/main/src/pool.go'',
          score = JFloat 1.5, snippet = JStr ''memory leak in pool''\<rparr>
   \<and> parse_item (JObj item_sparse) =
     Inr \<lparr>repository = JStr ''unknown/repo'', path = JStr ''README.md'', url = JStr [],
          score = JFloat 0, snippet = JNull\<rparr>
   \<and> parse_item (JObj []) =
     Inr \<lparr>repository = JStr ''unknown/repo'', path = JStr [], url = JStr [],
          score = JFloat 0, snippet = JNull\<rparr>
   \<and> parse_items (JArr (map JObj [item_sparse, []])) =
     Inr [\<lparr>repository = JStr ''unknown/repo'', path = JStr ''README.md'', url = JStr [],
           score = JFloat 0, snippet = JNull\<rparr>,
          \<lparr>repository = JStr ''unknown/repo'', path = JStr [], url = JStr [],
           score = JFloat 0, snippet = JNull\<rparr>]"
proof -
  have l: "list_all typed_item [item_sparse, []]"
    by (simp add: typed_examples)
  show ?thesis
    using parse_item_typed_fields [of item_full "[item_sparse, []]"]
      parse_item_typed_fields [of item_sparse "[]"]
      parse_item_typed_fields [of "[]" "[]"]
    by (simp only: typed_examples l expected_examples list.map simp_thms)
qed

text \<open>
  Claim C6 as first stated fails: for the item \<open>{"path": "README.md", "repository":
  null}\<close> the lookup \<open>item.get("repository", {})\<close> returns \<open>None\<close>, and
  \<open>None.get\<close> raises \<open>AttributeError\<close>; for the item \<open>{"path": "README.md",
  "text_matches": ["leak"]}\<close> the first entry of \<open>text_matches\<close> is a str, and
  \<open>"leak".get\<close> raises \<open>AttributeError\<close>.
\<close>

theorem parse_item_null_repository_counterexample:
  "parse_item (JObj item_null_repository) = Inl AttributeError
   \<and> parse_items (JArr [JObj item_null_repository]) = Inl AttributeError
   \<and> parse_item (JObj item_plain_match) = Inl AttributeError"
  by (simp add: parse_items_def parse_item_def bind_err_def py_or_def Let_def
      item_null_repository_def item_plain_match_def)
section \<open>Pagination\<close>

lemma request_with_retry_200:
  assumes "pending w = r # rs" and "status_code r = 200"
  shows "request_with_retry repr_of c ps hs w = (json_of r, exchanged c ps hs w)"
  unfolding request_with_retry_def attempts by (rule retry_loop_200 [OF assms])

lemma good_pageD:
  assumes "good_page r"
  shows "status_code r = 200"
    and "\<exists>kvs. json_of r = Inr (JObj kvs) \<and> field_or kvs ''items'' (JArr []) = JArr (items_of r)"
    and "parse_loop (items_of r) [] = Inr (results_of r)"
proof -
  from assms obtain xs where xs: "page_items r = Some xs"
    by (auto simp: good_page_def page_results_def split: option.splits)
  then show "status_code r = 200"
    by (simp add: page_items_def split: if_splits)
  from xs show "\<exists>kvs. json_of r = Inr (JObj kvs) \<and> field_or kvs ''items'' (JArr []) = JArr (items_of r)"
    by (auto simp: page_items_def items_of_def json_of_def field_or_def
        split: if_splits option.splits json.splits)
  from assms xs show "parse_loop (items_of r) [] = Inr (results_of r)"
    by (auto simp: good_page_def page_results_def results_of_def items_of_def
        split: option.splits sum.splits)
qed

lemma search_page_good:
  assumes "pending w = r # rs" and "good_page r"
  shows "search_page repr_of c spec pp hs pg results w =
     (Inr (results @ results_of r, short_page pp r), exchanged c (page_params spec pp pg) hs w)"
proof -
  from good_pageD(2) [OF assms(2)] obtain kvs where j: "json_of r = Inr (JObj kvs)"
    and i: "field_or kvs ''items'' (JArr []) = JArr (items_of r)"
    by blast
  have rq: "request_with_retry repr_of c (page_params spec pp pg) hs w =
      (Inr (JObj kvs), exchanged c (page_params spec pp pg) hs w)"
    using request_with_retry_200 [OF assms(1) good_pageD(1) [OF assms(2)]] j by simp
  show ?thesis
    unfolding search_page_def Let_def page_params_def [symmetric] rq
    by (simp del: py_get.simps
        add: py_get_JObj i bind_err_def parse_items_def good_pageD(3) [OF assms(2)]
          short_page_def)
qed

lemma world_update_id: "w\<lparr>sent := sent w, pending := pending w\<rparr> = w"
  by simp







lemma page_of_items: "items_of (page_of n) = replicate n (JObj item_sparse)"
  by (simp add: items_of_def page_items_def page_of_def)

lemma expected_sparse: "expected_result item_sparse = sparse_result"
  by (simp add: expected_examples sparse_result_def)

lemma page_of_results:
  "page_results (page_of n) = Some (replicate n sparse_result)"
proof -
  have "list_all typed_item (replicate n item_sparse)"
    by (simp add: list_all_iff typed_examples)
  then have "parse_loop (map JObj (replicate n item_sparse)) [] =
      Inr ([] @ map expected_result (replicate n item_sparse))"
    by (rule parse_loop_typed)
  then have "parse_loop (replicate n (JObj item_sparse)) [] = Inr (replicate n sparse_result)"
    by (simp add: expected_sparse)
  then show ?thesis
    by (simp add: page_results_def page_items_def page_of_def)
qed

lemma page_of_good: "good_page (page_of n)"
  by (simp add: good_page_def page_of_results)

lemma page_of_results_of: "results_of (page_of n) = replicate n sparse_result"
  by (simp add: results_of_def page_of_results)

lemma page_of_short: "short_page pp (page_of n) = (int n < pp)"
  by (simp add: short_page_def page_of_items)

section \<open>Errors in the page loop\<close>

lemma loop_reaches_search_loop:
  assumes "loop_reaches repr_of c spec pp hs pgs0 res0 w0 pgs res w"
  shows "search_loop repr_of c spec pp hs pgs0 res0 w0 = search_loop repr_of c spec pp hs pgs res w"
  using assms by (induction rule: loop_reaches.induct) simp_all

lemma session_get_Nil:
  "pending w = [] \<Longrightarrow>
   session_get c ps hs w = (Inl ConnectionError, w\<lparr>sent := sent w @ [make_request c ps hs]\<rparr>)"
  by (simp add: session_get_def Let_def)

lemma retry_loop_sent:
  "retry_loop repr_of c ps hs as w = (out, w') \<Longrightarrow>
   \<exists>k\<le>length as. sent w' = sent w @ replicate k (make_request c ps hs)"
proof (induction as arbitrary: w)
  case Nil
  then show ?case by simp
next
  case (Cons a as)
  let ?rq = "make_request c ps hs"
  have one: "sent w1 = sent w @ [?rq] \<Longrightarrow>
      \<exists>k\<le>length (a # as). sent w1 = sent w @ replicate k ?rq" for w1
    by (rule exI [of _ 1]) simp
  show ?case
  proof (cases "pending w")
    case Nil
    with Cons.prems have "w' = w\<lparr>sent := sent w @ [?rq]\<rparr>"
      by (simp add: session_get_Nil)
    then show ?thesis
      by (intro one) simp
  next
    case (Cons r rs)
    note p = this
    show ?thesis
    proof (cases "status_code r = 403 \<and> is_rate_limited r")
      case True
      then have unfold: "retry_loop repr_of c ps hs (a # as) w =
          (case retry_after r a (now w) of
             Inl e \<Rightarrow> (Inl e, exchanged c ps hs w)
           | Inr d \<Rightarrow>
               (case time_sleep d (exchanged c ps hs w) of
                  Inl e \<Rightarrow> (Inl e, exchanged c ps hs w)
                | Inr w2 \<Rightarrow> retry_loop repr_of c ps hs as w2))"
        using retry_loop_rate_limited [OF p] by simp
      show ?thesis
      proof (cases "retry_after r a (now w)")
        case (Inl e)
        with unfold Cons.prems have "w' = exchanged c ps hs w"
          by simp
        then show ?thesis
          by (intro one) (simp add: exchanged_fields)
      next
        case (Inr d)
        note wait = this
        show ?thesis
        proof (cases "time_sleep d (exchanged c ps hs w)")
          case (Inl e)
          with unfold wait Cons.prems have "w' = exchanged c ps hs w"
            by simp
          then show ?thesis
            by (intro one) (simp add: exchanged_fields)
        next
          case (Inr w2)
          with unfold wait Cons.prems have "retry_loop repr_of c ps hs as w2 = (out, w')"
            by simp
          from Cons.IH [OF this] obtain k where k: "k \<le> length as"
            and s: "sent w' = sent w2 @ replicate k ?rq"
            by blast
          have "w2 = after_sleep d (exchanged c ps hs w)"
            using Inr by (rule time_sleep_Inr)
          then have "sent w' = sent w @ replicate (Suc k) ?rq"
            using s by (simp add: after_sleep_fields exchanged_fields)
          with k show ?thesis
            by (intro exI [of _ "Suc k"]) simp
        qed
      qed
    next
      case False
      have "w' = exchanged c ps hs w"
      proof (cases "status_code r = 200")
        case True
        then show ?thesis
          using retry_loop_200 [OF p True, of repr_of c ps hs a as] Cons.prems by simp
      next
        case n200: False
        show ?thesis
        proof (cases "status_code r = 401")
          case True
          then show ?thesis
            using retry_loop_401 [OF p True, of repr_of c ps hs a as] Cons.prems by simp
        next
          case n401: False
          show ?thesis
            using retry_loop_other [OF p n200 n401 False, of repr_of c ps hs a as] Cons.prems
            by (cases "extract_error_message r") simp_all
        qed
      qed
      then show ?thesis
        by (intro one) (simp add: exchanged_fields)
    qed
  qed
qed

lemma search_page_sent:
  assumes "search_page repr_of c spec pp hs pg res w = (out, w')"
  shows "\<exists>k\<le>3. sent w' = sent w @ replicate k (make_request c (page_params spec pp pg) hs)"
proof -
  obtain o1 w1 where rq: "request_with_retry repr_of c (page_params spec pp pg) hs w = (o1, w1)"
    by (cases "request_with_retry repr_of c (page_params spec pp pg) hs w")
  then have "w' = w1"
    using assms unfolding search_page_def Let_def page_params_def [symmetric]
    by (cases o1) simp_all
  moreover have "\<exists>k\<le>length [1::int, 2, 3].
      sent w1 = sent w @ replicate k (make_request c (page_params spec pp pg) hs)"
    using rq unfolding request_with_retry_def attempts by (rule retry_loop_sent)
  ultimately show ?thesis
    by (simp add: numeral_3_eq_3)
qed

text \<open>
  Claim C7. When the page loop of \<open>search_code\<close> has reached some page, whatever
  results \<open>res\<close> it has parsed from the pages before, and that page raises an error
  (from the request or from parsing), the whole call raises that error: it returns no
  results, those of the earlier pages included. The world it leaves is the one the
  failing page left, in which every request sent since the page was reached is a
  request for that page (at most three of them): the remaining pages are not
  requested.
\<close>

theorem search_code_fails_atomically:
  assumes "loop_reaches repr_of c spec pp (call_headers text_matches) [1 .. pages] [] w
             (pg # rest) res wk"
    and "search_page repr_of c spec pp (call_headers text_matches) pg res wk = (Inl e, w')"
  shows "search_code repr_of c spec pp pages text_matches w = (Inl e, w')
     \<and> (\<exists>k\<le>3. sent w' =
           sent wk @ replicate k (make_request c (page_params spec pp pg)
                                    (call_headers text_matches)))"
proof
  have "search_code repr_of c spec pp pages text_matches w =
      search_loop repr_of c spec pp (call_headers text_matches) [1 .. pages] [] w"
    by (simp add: search_code_def call_headers_def)
  also have "\<dots> = search_loop repr_of c spec pp (call_headers text_matches) (pg # rest) res wk"
    by (rule loop_reaches_search_loop [OF assms(1)])
  also have "\<dots> = (Inl e, w')"
    using assms(2) by simp
  finally show "search_code repr_of c spec pp pages text_matches w = (Inl e, w')" .
  show "\<exists>k\<le>3. sent w' =
      sent wk @ replicate k (make_request c (page_params spec pp pg) (call_headers text_matches))"
    by (rule search_page_sent [OF assms(2)])
qed

lemma request_with_retry_401:
  assumes "pending w = r # rs" and "status_code r = 401"
  shows "request_with_retry repr_of c ps hs w =
     (Inl (GitHubAPIError ''GitHub rejected the token (401 Unauthorized)''), exchanged c ps hs w)"
  unfolding request_with_retry_def attempts by (rule retry_loop_401 [OF assms])

lemma search_page_401:
  assumes "pending w = r # rs" and "status_code r = 401"
  shows "search_page repr_of c spec pp hs pg res w =
     (Inl (GitHubAPIError ''GitHub rejected the token (401 Unauthorized)''),
      exchanged c (page_params spec pp pg) hs w)"
  unfolding search_page_def Let_def page_params_def [symmetric]
  by (simp add: request_with_retry_401 [OF assms])

text \<open>Page 1 gives 30 items of 30, page 2 is answered with 401, and 5 pages were asked
  for: the call fails with the 401 error after two requests, and the 30 results of
  page 1 are not returned.\<close>

theorem search_code_fails_atomically_witness:
  "search_code (\<lambda>v. []) example_client example_spec 30 5 True
      (example_world [page_of 30, resp_unauthorized, page_of 12])
     = (Inl (GitHubAPIError ''GitHub rejected the token (401 Unauthorized)''),
        \<lparr>pending = [page_of 12],
         sent = [make_request example_client (page_params example_spec 30 1) (call_headers True),
                 make_request example_client (page_params example_spec 30 2) (call_headers True)],
         slept = [], now = 1700000000\<rparr>)"
proof -
  let ?w0 = "example_world [page_of 30, resp_unauthorized, page_of 12]"
  let ?w1 = "exchanged example_client (page_params example_spec 30 1) (call_headers True) ?w0"
  let ?w2 = "exchanged example_client (page_params example_spec 30 2) (call_headers True) ?w1"
  have u: "[1 .. 5] = 1 # 2 # [3, 4, 5]"
    by (simp add: upto.simps)
  have p0: "pending ?w0 = page_of 30 # [resp_unauthorized, page_of 12]"
    by (simp add: example_world_def)
  have p1: "pending ?w1 = resp_unauthorized # [page_of 12]"
    by (simp add: example_world_def exchanged_def)
  have first: "search_page (\<lambda>v. []) example_client example_spec 30 (call_headers True) 1 [] ?w0
      = (Inr (replicate 30 sparse_result, False), ?w1)"
    using search_page_good [OF p0 page_of_good, of "\<lambda>v. []" example_client example_spec 30
        "call_headers True" 1 "[]"]
    by (simp add: page_of_results_of page_of_short)
  have reach: "loop_reaches (\<lambda>v. []) example_client example_spec 30 (call_headers True)
      [1 .. 5] [] ?w0 (2 # [3, 4, 5]) (replicate 30 sparse_result) ?w1"
  proof -
    have "loop_reaches (\<lambda>v. []) example_client example_spec 30 (call_headers True)
        [1 .. 5] [] ?w0 [1 .. 5] [] ?w0"
      by (rule at_start)
    then have "loop_reaches (\<lambda>v. []) example_client example_spec 30 (call_headers True)
        [1 .. 5] [] ?w0 (1 # 2 # [3, 4, 5]) [] ?w0"
      by (simp only: u)
    from next_page [OF this first] show ?thesis .
  qed
  have fail: "search_page (\<lambda>v. []) example_client example_spec 30 (call_headers True) 2
      (replicate 30 sparse_result) ?w1
      = (Inl (GitHubAPIError ''GitHub rejected the token (401 Unauthorized)''), ?w2)"
    by (rule search_page_401 [OF p1 status_examples(4)])
  have w2: "?w2 = \<lparr>pending = [page_of 12],
      sent = [make_request example_client (page_params example_spec 30 1) (call_headers True),
              make_request example_client (page_params example_spec 30 2) (call_headers True)],
      slept = [], now = 1700000000\<rparr>"
    by (simp add: exchanged_def example_world_def)
  show ?thesis
    using search_code_fails_atomically [OF reach fail] unfolding w2 by simp
qed
section \<open>The Accept header\<close>

lemma py_lower_header_names:
  "py_lower ''Accept'' = ''accept''" "py_lower ''Authorization'' = ''authorization''"
  by code_simp+

lemma client_sends_text_match:
  "header_get (req_headers (make_request (init_client token url0 user_agent session0) ps
      (call_headers False))) ''Accept''
     = Some ''application/vnd.github.v3.text-match+json''"
  by (simp add: make_request_def init_client_def call_headers_def header_get_def
      py_lower_header_names)

lemma resp_no_items_good:
  "good_page resp_no_items" "results_of resp_no_items = []" "short_page 30 resp_no_items"
  by (simp_all add: good_page_def results_of_def short_page_def items_of_def page_results_def
      page_items_def resp_no_items_def)

text \<open>
  Claim C8 fails on the code. \<open>search_code\<close> called with \<open>text_matches = False\<close> passes
  no header of its own, and the session still holds the Accept header that \<open>__init__\<close>
  put there: the request goes out with
  \<open>Accept: application/vnd.github.v3.text-match+json\<close>.
\<close>

theorem text_matches_false_still_sends_accept:
  "search_code (\<lambda>v. []) example_client example_spec 30 1 False (example_world [resp_no_items])
     = (Inr [],
        \<lparr>pending = [],
         sent = [make_request example_client (page_params example_spec 30 1) (call_headers False)],
         slept = [], now = 1700000000\<rparr>)
   \<and> header_get (req_headers (make_request example_client (page_params example_spec 30 1)
         (call_headers False))) ''Accept''
     = Some ''application/vnd.github.v3.text-match+json''"
proof
  have p: "pending (example_world [resp_no_items]) = resp_no_items # []"
    by (simp add: example_world_def)
  have u: "[1 .. 1] = [1::int]"
    by (simp add: upto.simps)
  show "search_code (\<lambda>v. []) example_client example_spec 30 1 False (example_world [resp_no_items])
     = (Inr [],
        \<lparr>pending = [],
         sent = [make_request example_client (page_params example_spec 30 1) (call_headers False)],
         slept = [], now = 1700000000\<rparr>)"
    using search_page_good [OF p resp_no_items_good(1), of "\<lambda>v. []" example_client example_spec
        30 "[]" 1 "[]"]
    by (simp add: search_code_def u resp_no_items_good call_headers_def exchanged_def
        example_world_def)
  show "header_get (req_headers (make_request example_client (page_params example_spec 30 1)
         (call_headers False))) ''Accept''
     = Some ''application/vnd.github.v3.text-match+json''"
    unfolding example_client_def by (rule client_sends_text_match)
qed

end
